theory Spec2Isabelle
  imports Main
begin

section \<open>Data model\<close>

text \<open>
  The handlers of the blob service (\<^verbatim>\<open>ContainerHandler\<close>, \<^verbatim>\<open>ServiceHandler\<close>,
  \<^verbatim>\<open>BaseBlobHandler\<close>) are embedded as functions over explicit state. A \<^verbatim>\<open>Date\<close> is
  its epoch value; an optional property of a TypeScript object is an \<open>option\<close>
  (\<open>None\<close> is \<^verbatim>\<open>undefined\<close>); a thrown error is the \<open>Inl\<close> branch of a sum.
  Field names follow the source; where two object shapes share a property name one of
  them carries a short prefix (\<open>opt_\<close> for the fields of an \<^verbatim>\<open>options\<close> argument).
  Logger calls have no effect on any result and are left out.
\<close>

type_synonym date = nat

datatype LeaseStatusType = Locked | Unlocked

datatype LeaseStateType = Available | Leased | Expired | Breaking | Broken

datatype PublicAccessType = Container | Blob

datatype ListBlobsIncludeItem = Snapshots | Metadata | Uncommittedblobs | Copy | Deleted

record Request =
  getHeader :: "string \<Rightarrow> string option"
  getBody :: "string option"
  getEndpoint :: string

text \<open>
  The context of one request (\<^verbatim>\<open>Context\<close> and its view \<^verbatim>\<open>BlobStorageContext\<close>). The
  handlers read \<^verbatim>\<open>account!\<close>, \<^verbatim>\<open>container!\<close>, \<^verbatim>\<open>startTime!\<close> and \<^verbatim>\<open>request!\<close> with a
  non-null assertion, so these are plain fields here. The sources spell the request
  id both \<^verbatim>\<open>contextID\<close> and \<^verbatim>\<open>contextId\<close>.
\<close>

record Context =
  account :: string
  container :: string
  startTime :: date
  contextID :: string
  contextId :: string
  request :: Request

record ContainerProperties =
  etag :: string
  lastModified :: date
  leaseStatus :: "LeaseStatusType option"
  leaseState :: "LeaseStateType option"
  publicAccess :: "PublicAccessType option"
  hasImmutabilityPolicy :: "bool option"
  hasLegalHold :: "bool option"

record ContainerModel =
  c_accountName :: string
  c_metadata :: "(string \<times> string) list option"
  c_name :: string
  c_properties :: ContainerProperties

record AccessPolicy =
  start :: "string option"
  expiry :: "string option"
  permission :: "string option"

record SignedIdentifier =
  id :: string
  accessPolicy :: AccessPolicy

record LeaseAccessConditions =
  leaseId :: "string option"

text \<open>The object literal that \<^verbatim>\<open>setAccessPolicy\<close> hands to \<^verbatim>\<open>setContainerACL\<close>.\<close>

record ContainerACL =
  acl_lastModified :: date
  acl_etag :: string
  acl_publicAccess :: "PublicAccessType option"
  containerAcl :: "SignedIdentifier list option"
  leaseAccessConditions :: "LeaseAccessConditions option"

text \<open>
  The optional parameters of \<^verbatim>\<open>create\<close>, \<^verbatim>\<open>setMetadata\<close> and \<^verbatim>\<open>setAccessPolicy\<close>
  (the properties of \<^verbatim>\<open>options\<close> that these three handlers read).
\<close>

record ContainerOptionalParams =
  opt_metadata :: "(string \<times> string) list option"
  opt_access :: "PublicAccessType option"
  opt_containerAcl :: "SignedIdentifier list option"
  opt_leaseAccessConditions :: "LeaseAccessConditions option"

text \<open>
  The optional parameters of the three listing operations. \<^verbatim>\<open>maxresults\<close> is a
  JavaScript number; \<^verbatim>\<open>x || d\<close> takes \<open>d\<close> when \<open>x\<close> is \<^verbatim>\<open>undefined\<close>, \<open>0\<close> or the empty
  string.
\<close>

record 'i ListOptionalParams =
  opt_prefix :: "string option"
  opt_marker :: "string option"
  opt_maxresults :: "int option"
  opt_include :: "'i list option"

record BlobModel =
  name :: string
  snapshot :: string
  deleted :: "bool option"

datatype BlobPrefix = BlobPrefix (bp_name: string)

record Segment =
  blobItems :: "BlobModel list"
  blobPrefixes :: "BlobPrefix list option"

text \<open>
  Every response object carries \<^verbatim>\<open>requestId\<close> and \<^verbatim>\<open>statusCode\<close>; \<^verbatim>\<open>version\<close> and
  \<^verbatim>\<open>date\<close> are absent from some of the literals.
\<close>

record Response =
  requestId :: string
  statusCode :: nat
  version :: "string option"
  date :: "date option"

record ContainerResponse = Response +
  eTag :: string
  res_lastModified :: date

subsection \<open>Errors\<close>

text \<open>
  What a handler can throw: the two errors built through \<^verbatim>\<open>StorageErrorFactory\<close> (kept
  with the arguments the handler passes), a plain JavaScript \<^verbatim>\<open>Error\<close> with its
  message, the \<^verbatim>\<open>TypeError\<close> of the language for a property read from \<^verbatim>\<open>null\<close> or
  \<^verbatim>\<open>undefined\<close> and for a call of something that is not a function, a failure of the
  HTTP transport, and whatever the metadata store throws.
\<close>

datatype 'e error =
    InvalidHeaderValue string string string
  | CannotVerifyCopySource string nat string
  | Error string
  | TypeError
  | TransportError string
  | StoreError 'e

subsection \<open>Service properties\<close>

text \<open>
  The shapes of the literal \<^verbatim>\<open>defaultServiceProperties\<close>. Of the service properties
  only the six that the handlers read or write are kept.
\<close>

record RetentionPolicy =
  rp_enabled :: bool

record Metrics =
  m_enabled :: bool
  m_retentionPolicy :: RetentionPolicy
  m_version :: string

record Logging =
  l_deleteProperty :: bool
  l_read :: bool
  l_retentionPolicy :: RetentionPolicy
  l_version :: string
  l_write :: bool

record StaticWebsite =
  sw_enabled :: bool

record CorsRule =
  allowedOrigins :: string
  allowedMethods :: string
  allowedHeaders :: string
  exposedHeaders :: string
  maxAgeInSeconds :: int

record StorageServiceProperties =
  cors :: "CorsRule list option"
  defaultServiceVersion :: "string option"
  hourMetrics :: "Metrics option"
  logging :: "Logging option"
  minuteMetrics :: "Metrics option"
  staticWebsite :: "StaticWebsite option"

record ServicePropertiesModel = StorageServiceProperties +
  accountName :: string

record ServiceGetPropertiesResponse = Response +
  properties :: ServicePropertiesModel

subsection \<open>Listing responses\<close>

record ListResponse = Response +
  serviceEndpoint :: string
  prefix :: string
  maxResults :: int
  nextMarker :: string


record ListBlobsResponse = ListResponse +
  contentType :: string
  containerName :: string
  marker :: string
  delimiter :: string
  segment :: Segment

text \<open>
  A JavaScript number as \<^verbatim>\<open>parseInt\<close> produces it: \<^verbatim>\<open>NaN\<close>, an integer that a double
  represents, the negative zero, or one of the two infinities.
\<close>

datatype js_number = NaN | Number int | NegativeZero | Infinity | NegativeInfinity

text \<open>
  What \<^verbatim>\<open>parseXML\<close> is given: the handlers pass it a string (the body of the request,
  the \<^verbatim>\<open>data\<close> of a response read as text), the stream that is the \<^verbatim>\<open>data\<close> of a
  response requested with \<^verbatim>\<open>responseType: "stream"\<close>, or whatever else the HTTP client
  has made of a body.
\<close>

datatype payload = StringData string | StreamData string | ObjectData

text \<open>
  What \<^verbatim>\<open>parseXML\<close> resolves to, when it is an object: its own properties, each a
  string (\<open>Text\<close>) or a value of another kind (\<open>NotText\<close>). \<^verbatim>\<open>parseXML\<close> itself is an
  import of the handlers: the promise it returns is either rejected with an error
  (\<open>Inl\<close>, the message of the error) or resolved (\<open>Inr\<close>), to \<^verbatim>\<open>null\<close> or \<^verbatim>\<open>undefined\<close>
  (\<open>None\<close>) or to an object. The handlers \<^verbatim>\<open>await\<close> it with no \<^verbatim>\<open>catch\<close>, so a rejection is
  thrown by the handler.
\<close>

datatype xml_value = Text string | NotText

type_synonym ParsedXML = "string \<Rightarrow> xml_value option"

subsection \<open>The metadata store and the imports of the handlers\<close>

text \<open>
  The metadata store is an interface: each operation takes the state of the store and
  either throws or returns its result with the new state. The handlers are written
  against any implementation.
\<close>

record ('s, 'e) MetadataStore =
  createContainer :: "ContainerModel \<Rightarrow> Context \<Rightarrow> 's \<Rightarrow> 'e + 's"
  setContainerMetadata ::
    "string \<Rightarrow> string \<Rightarrow> date \<Rightarrow> string \<Rightarrow> (string \<times> string) list option \<Rightarrow> Context
      \<Rightarrow> 's \<Rightarrow> 'e + 's"
  setContainerACL :: "string \<Rightarrow> string \<Rightarrow> ContainerACL \<Rightarrow> Context \<Rightarrow> 's \<Rightarrow> 'e + 's"
  checkContainerExist :: "string \<Rightarrow> string \<Rightarrow> Context \<Rightarrow> 's \<Rightarrow> 'e + 's"
  listBlobs ::
    "string \<Rightarrow> string \<Rightarrow> string option \<Rightarrow> string option \<Rightarrow> int option \<Rightarrow> string option
      \<Rightarrow> bool \<Rightarrow> 's \<Rightarrow> 'e + ((BlobModel list \<times> string option) \<times> 's)"
  listContainers ::
    "string \<Rightarrow> string \<Rightarrow> int \<Rightarrow> js_number \<Rightarrow> 's
      \<Rightarrow> 'e + ((ContainerModel list \<times> int option) \<times> 's)"
  getServiceProperties :: "string \<Rightarrow> 's \<Rightarrow> 'e + (ServicePropertiesModel option \<times> 's)"
  setServiceProperties :: "ServicePropertiesModel \<Rightarrow> 's \<Rightarrow> 'e + 's"

text \<open>
  \<^verbatim>\<open>this\<close> of a handler: the store, and the imports whose code is not part of the
  handlers: \<^verbatim>\<open>newEtag\<close> (a generator with its own state), the constant
  \<^verbatim>\<open>BLOB_API_VERSION\<close> and \<^verbatim>\<open>parseXML\<close>.
\<close>

record ('s, 'e, 'g) Handler =
  metadataStore :: "('s, 'e) MetadataStore"
  newEtag :: "'g \<Rightarrow> string \<times> 'g"
  BLOB_API_VERSION :: string
  parseXML :: "payload \<Rightarrow> string + ParsedXML option"

section \<open>ContainerHandler: create, setMetadata, setAccessPolicy\<close>

definition create ::
  "('s, 'e, 'g) Handler \<Rightarrow> ContainerOptionalParams \<Rightarrow> Context \<Rightarrow> 'g \<Rightarrow> 's
    \<Rightarrow> 'e error + (ContainerResponse \<times> 'g \<times> 's)" where
  "create this options context g s =
    (let accountName = account context;
         containerName = container context;
         lastModified = startTime context;
         (etag, g') = newEtag this g
     in case createContainer (metadataStore this)
          \<lparr>c_accountName = accountName,
           c_metadata = opt_metadata options,
           c_name = containerName,
           c_properties =
             \<lparr>etag = etag,
              lastModified = lastModified,
              leaseStatus = Some Unlocked,
              leaseState = Some Available,
              publicAccess = opt_access options,
              hasImmutabilityPolicy = Some False,
              hasLegalHold = Some False\<rparr>\<rparr>
          context s of
        Inl e \<Rightarrow> Inl (StoreError e)
      | Inr s' \<Rightarrow>
          Inr (\<lparr>requestId = contextID context,
                statusCode = 201,
                version = Some (BLOB_API_VERSION this),
                date = None,
                eTag = etag,
                res_lastModified = lastModified\<rparr>, g', s'))"



section \<open>JavaScript primitives used by the handlers\<close>

text \<open>
  \<^verbatim>\<open>x || d\<close> on an optional string and on an optional number. A string is a list of
  characters, one for each code unit of the JavaScript string; \<^verbatim>\<open>length\<close>, \<^verbatim>\<open>indexOf\<close>
  and \<^verbatim>\<open>substr\<close> count its elements.
\<close>

definition or_string :: "string option \<Rightarrow> string \<Rightarrow> string" where
  "or_string x d = (case x of None \<Rightarrow> d | Some v \<Rightarrow> if v = [] then d else v)"

definition or_number :: "int option \<Rightarrow> int \<Rightarrow> int" where
  "or_number x d = (case x of None \<Rightarrow> d | Some v \<Rightarrow> if v = 0 then d else v)"

text \<open>
  \<^verbatim>\<open>s.indexOf(searchString, position)\<close>: the least index at or after the clamped
  position where the search string occurs, \<open>-1\<close> when there is none.
\<close>

fun indexOf_from :: "string \<Rightarrow> string \<Rightarrow> nat \<Rightarrow> int" where
  "indexOf_from searchString [] k = (if searchString = [] then int k else - 1)"
| "indexOf_from searchString (c # cs) k =
     (if take (length searchString) (c # cs) = searchString then int k
      else indexOf_from searchString cs (Suc k))"

definition indexOf :: "string \<Rightarrow> string \<Rightarrow> nat \<Rightarrow> int" where
  "indexOf s searchString position =
     (let k = min position (length s) in indexOf_from searchString (drop k s) k)"

text \<open>\<^verbatim>\<open>s.substr(0, n)\<close> for a number \<open>n\<close>: nothing when \<open>n\<close> is not positive.\<close>

definition substr0 :: "string \<Rightarrow> int \<Rightarrow> string" where
  "substr0 s n = take (nat n) s"

text \<open>\<^verbatim>\<open>set.add(v)\<close> on a \<^verbatim>\<open>Set\<close>, which iterates in insertion order.\<close>

definition Set_add :: "string list \<Rightarrow> string \<Rightarrow> string list" where
  "Set_add values v = (if v \<in> set values then values else values @ [v])"










section \<open>ContainerHandler: listing blobs\<close>

definition LIST_BLOBS_MAX_RESULTS_DEFAULT :: int where
  "LIST_BLOBS_MAX_RESULTS_DEFAULT = 5000"

text \<open>
  \<^verbatim>\<open>options.include !== undefined && options.include.includes(Snapshots)\<close>.
\<close>

definition includeSnapshots_of :: "ListBlobsIncludeItem ListOptionalParams \<Rightarrow> bool" where
  "includeSnapshots_of options =
     (case opt_include options of None \<Rightarrow> False | Some items \<Rightarrow> Snapshots \<in> set items)"

text \<open>The loop of \<^verbatim>\<open>listBlobFlatSegment\<close> over the blobs the store returned.\<close>

fun flat_loop :: "BlobModel list \<Rightarrow> BlobModel list \<Rightarrow> BlobModel list" where
  "flat_loop [] items = items"
| "flat_loop (blob # blobs) items =
     flat_loop blobs
       (items @ [blob\<lparr>deleted := (if deleted blob \<noteq> Some True then None else Some True)\<rparr>])"

definition listBlobFlatSegment ::
  "('s, 'e, 'g) Handler \<Rightarrow> ListBlobsIncludeItem ListOptionalParams \<Rightarrow> Context \<Rightarrow> 's
    \<Rightarrow> 'e error + (ListBlobsResponse \<times> 's)" where
  "listBlobFlatSegment this options context s =
    (let accountName = account context;
         containerName = container context
     in case checkContainerExist (metadataStore this) accountName containerName context s of
        Inl e \<Rightarrow> Inl (StoreError e)
      | Inr s1 \<Rightarrow>
         (let marker = opt_marker options;
              delimiter = [];
              options_marker = or_string (opt_marker options) [];
              includeSnapshots = includeSnapshots_of options
          in case listBlobs (metadataStore this) accountName containerName None
                 (opt_prefix options) (opt_maxresults options) marker includeSnapshots s1 of
             Inl e \<Rightarrow> Inl (StoreError e)
           | Inr ((blobs, next), s2) \<Rightarrow>
               Inr (\<lparr>requestId = contextID context,
                     statusCode = 200,
                     version = Some (BLOB_API_VERSION this),
                     date = Some (startTime context),
                     serviceEndpoint = getEndpoint (request context) @ ''/'' @ accountName,
                     prefix = or_string (opt_prefix options) [],
                     maxResults =
                       or_number (opt_maxresults options) LIST_BLOBS_MAX_RESULTS_DEFAULT,
                     nextMarker = or_string next [],
                     contentType = ''application/xml'',
                     containerName = containerName,
                     marker = options_marker,
                     delimiter = delimiter,
                     segment = \<lparr>blobItems = flat_loop blobs [], blobPrefixes = None\<rparr>\<rparr>,
                    s2)))"

text \<open>
  The loop of \<^verbatim>\<open>listBlobHierarchySegment\<close>: the state is the array \<^verbatim>\<open>blobItems\<close> (\<open>items\<close>) and
  the set \<^verbatim>\<open>blobPrefixesSet\<close>.
\<close>

fun hierarchy_loop ::
  "string \<Rightarrow> nat \<Rightarrow> BlobModel list \<Rightarrow> BlobModel list \<times> string list
    \<Rightarrow> BlobModel list \<times> string list" where
  "hierarchy_loop delim prefixLength [] acc = acc"
| "hierarchy_loop delim prefixLength (blob # blobs) (items, blobPrefixesSet) =
     (let delimiterPosAfterPrefix = indexOf (name blob) delim prefixLength
      in if delimiterPosAfterPrefix < 0
         then hierarchy_loop delim prefixLength blobs
                (items @
                   [blob\<lparr>deleted := (if deleted blob \<noteq> Some True then None else Some True)\<rparr>],
                 blobPrefixesSet)
         else hierarchy_loop delim prefixLength blobs
                (items,
                 Set_add blobPrefixesSet
                   (substr0 (name blob) (delimiterPosAfterPrefix + 1))))"

definition listBlobHierarchySegment ::
  "('s, 'e, 'g) Handler \<Rightarrow> string \<Rightarrow> ListBlobsIncludeItem ListOptionalParams \<Rightarrow> Context \<Rightarrow> 's
    \<Rightarrow> 'e error + (ListBlobsResponse \<times> 's)" where
  "listBlobHierarchySegment this delimiter0 options context s =
    (let accountName = account context;
         containerName = container context
     in case checkContainerExist (metadataStore this) accountName containerName context s of
        Inl e \<Rightarrow> Inl (StoreError e)
      | Inr s1 \<Rightarrow>
         (let marker = opt_marker options;
              delimiter = (if delimiter0 = [] then ''/'' else delimiter0);
              options_prefix = or_string (opt_prefix options) [];
              options_marker = or_string (opt_marker options) [];
              includeSnapshots = includeSnapshots_of options
          in case listBlobs (metadataStore this) accountName containerName None
                 (Some options_prefix) (opt_maxresults options) marker includeSnapshots s1 of
             Inl e \<Rightarrow> Inl (StoreError e)
           | Inr ((blobs, next), s2) \<Rightarrow>
              (let prefixLength = length options_prefix;
                   (blobItems, blobPrefixesSet) =
                      hierarchy_loop delimiter prefixLength blobs ([], []);
                   blobPrefixes = map BlobPrefix blobPrefixesSet
               in Inr (\<lparr>requestId = contextID context,
                        statusCode = 200,
                        version = Some (BLOB_API_VERSION this),
                        date = Some (startTime context),
                        serviceEndpoint = getEndpoint (request context) @ ''/'' @ accountName,
                        prefix = options_prefix,
                        maxResults =
                          or_number (opt_maxresults options) LIST_BLOBS_MAX_RESULTS_DEFAULT,
                        nextMarker = or_string next [],
                        contentType = ''application/xml'',
                        containerName = containerName,
                        marker = options_marker,
                        delimiter = delimiter,
                        segment =
                          \<lparr>blobItems = blobItems, blobPrefixes = Some blobPrefixes\<rparr>\<rparr>,
                       s2))))"

section \<open>ServiceHandler\<close>


definition defaultServiceProperties :: "('s, 'e, 'g) Handler \<Rightarrow> StorageServiceProperties" where
  "defaultServiceProperties this =
     \<lparr>cors = Some [],
      defaultServiceVersion = Some (BLOB_API_VERSION this),
      hourMetrics =
        Some \<lparr>m_enabled = False, m_retentionPolicy = \<lparr>rp_enabled = False\<rparr>, m_version = ''1.0''\<rparr>,
      logging =
        Some \<lparr>l_deleteProperty = True,
              l_read = True,
              l_retentionPolicy = \<lparr>rp_enabled = False\<rparr>,
              l_version = ''1.0'',
              l_write = True\<rparr>,
      minuteMetrics =
        Some \<lparr>m_enabled = False, m_retentionPolicy = \<lparr>rp_enabled = False\<rparr>, m_version = ''1.0''\<rparr>,
      staticWebsite = Some \<lparr>sw_enabled = False\<rparr>\<rparr>"

text \<open>
  Both stubs throw a plain \<^verbatim>\<open>Error\<close> before anything else happens; they are not
  \<^verbatim>\<open>async\<close>, so the error is thrown by the call itself.
\<close>

definition getUserDelegationKey ::
  "string \<times> string \<Rightarrow> 'o \<Rightarrow> Context \<Rightarrow> 'e error + 'r" where
  "getUserDelegationKey keyInfo options context = Inl (Error ''Method not implemented.'')"

definition submitBatch ::
  "string \<Rightarrow> int \<Rightarrow> string \<Rightarrow> 'o \<Rightarrow> Context \<Rightarrow> 'e error + 'r" where
  "submitBatch body contentLength multipartContentType options context =
     Inl (Error ''Method not implemented.'')"

text \<open>
  \<^verbatim>\<open>obj.hasOwnProperty(k)\<close> on the parsed body, when that is an object; on \<^verbatim>\<open>null\<close> or
  \<^verbatim>\<open>undefined\<close> the read of \<^verbatim>\<open>hasOwnProperty\<close> throws a \<^verbatim>\<open>TypeError\<close>, which is a branch
  of \<^verbatim>\<open>setProperties\<close> below.
\<close>

definition hasOwnProperty :: "ParsedXML \<Rightarrow> string \<Rightarrow> bool" where
  "hasOwnProperty obj k = (obj k \<noteq> None)"

text \<open>The object \<^verbatim>\<open>{ ...storageServiceProperties, accountName }\<close>.\<close>

definition withAccountName :: "StorageServiceProperties \<Rightarrow> string \<Rightarrow> ServicePropertiesModel" where
  "withAccountName p a =
     \<lparr>cors = cors p,
      defaultServiceVersion = defaultServiceVersion p,
      hourMetrics = hourMetrics p,
      logging = logging p,
      minuteMetrics = minuteMetrics p,
      staticWebsite = staticWebsite p,
      accountName = a\<rparr>"

definition setProperties ::
  "('s, 'e, 'g) Handler \<Rightarrow> StorageServiceProperties \<Rightarrow> 'o \<Rightarrow> Context \<Rightarrow> 's
    \<Rightarrow> 'e error + (Response \<times> 's)" where
  "setProperties this storageServiceProperties options context s =
    (let accountName = account context;
         body = getBody (request context)
     in case parseXML this (StringData (or_string body [])) of
        Inl rejected \<Rightarrow> Inl (Error rejected)
      | Inr None \<Rightarrow> Inl TypeError
      | Inr (Some parsedBody) \<Rightarrow>
         (let storageServiceProperties' =
                (if \<not> hasOwnProperty parsedBody ''cors'' \<and> \<not> hasOwnProperty parsedBody ''Cors''
                 then storageServiceProperties\<lparr>cors := None\<rparr>
                 else storageServiceProperties)
          in case setServiceProperties (metadataStore this)
                    (withAccountName storageServiceProperties' accountName) s of
             Inl e \<Rightarrow> Inl (StoreError e)
           | Inr s' \<Rightarrow>
               Inr (\<lparr>requestId = contextID context,
                     statusCode = 202,
                     version = Some (BLOB_API_VERSION this),
                     date = None\<rparr>, s')))"

definition getProperties ::
  "('s, 'e, 'g) Handler \<Rightarrow> 'o \<Rightarrow> Context \<Rightarrow> 's
    \<Rightarrow> 'e error + (ServiceGetPropertiesResponse \<times> 's)" where
  "getProperties this options context s =
    (let accountName = account context
     in case getServiceProperties (metadataStore this) accountName s of
        Inl e \<Rightarrow> Inl (StoreError e)
      | Inr (stored, s') \<Rightarrow>
         (let p0 = (case stored of
                      None \<Rightarrow> withAccountName (defaultServiceProperties this) accountName
                    | Some p \<Rightarrow> p);
              p1 = (if cors p0 = None then p0\<lparr>cors := Some []\<rparr> else p0);
              p2 = (if cors p1 = None then p1\<lparr>cors := Some []\<rparr> else p1);
              p3 = (if hourMetrics p2 = None
                    then p2\<lparr>hourMetrics := hourMetrics (defaultServiceProperties this)\<rparr>
                    else p2);
              p4 = (if logging p3 = None
                    then p3\<lparr>logging := logging (defaultServiceProperties this)\<rparr>
                    else p3);
              p5 = (if minuteMetrics p4 = None
                    then p4\<lparr>minuteMetrics := minuteMetrics (defaultServiceProperties this)\<rparr>
                    else p4);
              p6 = (if defaultServiceVersion p5 = None
                    then p5\<lparr>defaultServiceVersion :=
                              defaultServiceVersion (defaultServiceProperties this)\<rparr>
                    else p5);
              p7 = (if staticWebsite p6 = None
                    then p6\<lparr>staticWebsite := staticWebsite (defaultServiceProperties this)\<rparr>
                    else p6)
          in Inr (\<lparr>requestId = contextID context,
                   statusCode = 200,
                   version = Some (BLOB_API_VERSION this),
                   date = None,
                   properties = p7\<rparr>, s')))"


section \<open>BaseBlobHandler: the copy source\<close>

record URL =
  host :: string

record AxiosResponse =
  status :: nat
  headers :: "string \<Rightarrow> string option"
  data :: payload

text \<open>
  What \<^verbatim>\<open>BaseBlobHandler\<close> takes from its platform: the \<^verbatim>\<open>URL\<close> constructor (\<open>None\<close> when it
  throws), the string of \<^verbatim>\<open>URLBuilder.parse(copySource)\<close> after
  \<^verbatim>\<open>setQueryParameter("comp", "metadata")\<close>, the two header names of
  \<^verbatim>\<open>HeaderConstants\<close>, and \<^verbatim>\<open>axios.get\<close> with \<^verbatim>\<open>validateStatus: () => true\<close>, given the URL,
  the headers of the request and the \<^verbatim>\<open>responseType\<close> when there is one: a request
  either fails in the transport or resolves to the response, whatever its status; the
  network has a state of its own.
\<close>

record 'n Platform =
  new_URL :: "string \<Rightarrow> URL option"
  metadataUrl :: "string \<Rightarrow> string"
  CONTENT_TYPE :: string
  RANGE :: string
  axios_get ::
    "string \<Rightarrow> (string \<Rightarrow> string option) \<Rightarrow> string option \<Rightarrow> 'n
      \<Rightarrow> (string + AxiosResponse) \<times> 'n"

definition NewUriFromCopySource :: "'n Platform \<Rightarrow> string \<Rightarrow> Context \<Rightarrow> 'e error + URL" where
  "NewUriFromCopySource platform copySource context =
     (case new_URL platform copySource of
        Some url \<Rightarrow> Inr url
      | None \<Rightarrow> Inl (InvalidHeaderValue (contextId context) ''x-ms-copy-source'' copySource))"

text \<open>
  The message of a failed request to the copy source, for a status that is neither a
  success nor 404: the block that \<^verbatim>\<open>getCopySourceContent\<close> and \<^verbatim>\<open>validateCopySource\<close>
  both contain. \<^verbatim>\<open>replace(/\n+/gm, "")\<close> deletes every line feed. The block throws when
  \<^verbatim>\<open>parseXML\<close> rejects, when it resolves to \<^verbatim>\<open>null\<close> or \<^verbatim>\<open>undefined\<close> (the read of
  \<^verbatim>\<open>Message\<close>), and when \<^verbatim>\<open>Message\<close> is not a string (the call of \<^verbatim>\<open>replace\<close>).
\<close>

definition errorMessage ::
  "('s, 'e, 'g) Handler \<Rightarrow> 'n Platform \<Rightarrow> AxiosResponse \<Rightarrow> 'e error + string" where
  "errorMessage this platform response =
     (let message = ''Could not verify the copy source within the specified time.''
      in if headers response (CONTENT_TYPE platform) = Some ''application/xml''
         then (case parseXML this (data response) of
                 Inl rejected \<Rightarrow> Inl (Error rejected)
               | Inr None \<Rightarrow> Inl TypeError
               | Inr (Some authenticationError) \<Rightarrow>
                   (case authenticationError ''Message'' of
                      None \<Rightarrow> Inr message
                    | Some (Text m) \<Rightarrow> Inr (filter (\<lambda>c. c \<noteq> CHR 0x0A) m)
                    | Some NotText \<Rightarrow> Inl TypeError))
         else Inr message)"

definition copyHeader ::
  "Context \<Rightarrow> (string \<Rightarrow> string option) \<Rightarrow> string \<Rightarrow> string \<Rightarrow> (string \<Rightarrow> string option)" where
  "copyHeader context targetHeaders nm targetName =
     (case getHeader (request context) nm of
        None \<Rightarrow> targetHeaders
      | Some headerValue \<Rightarrow> targetHeaders(targetName \<mapsto> headerValue))"

definition getCopySourceContent ::
  "('s, 'e, 'g) Handler \<Rightarrow> 'n Platform \<Rightarrow> string \<Rightarrow> string \<Rightarrow> Context \<Rightarrow> 'n
    \<Rightarrow> ('e error + payload) \<times> 'n" where
  "getCopySourceContent this platform copySource sourceAccount context n =
    (let sourceHeaders = copyHeader context Map.empty ''x-ms-source-range'' (RANGE platform)
     in case axios_get platform copySource sourceHeaders (Some ''stream'') n of
        (Inl err, n') \<Rightarrow> (Inl (TransportError err), n')
      | (Inr response, n') \<Rightarrow>
          if status response \<ge> 200 \<and> status response < 300 then (Inr (data response), n')
          else if status response = 404
          then (Inl (CannotVerifyCopySource (contextId context) (status response)
                       ''The specified resource does not exist''), n')
          else (case errorMessage this platform response of
                  Inl thrown \<Rightarrow> (Inl thrown, n')
                | Inr message \<Rightarrow>
                    (Inl (CannotVerifyCopySource (contextId context) (status response)
                            message), n')))"

definition validateCopySource ::
  "('s, 'e, 'g) Handler \<Rightarrow> 'n Platform \<Rightarrow> string \<Rightarrow> string \<Rightarrow> Context \<Rightarrow> 'n
    \<Rightarrow> ('e error + unit) \<times> 'n" where
  "validateCopySource this platform copySource sourceAccount context n =
    (let currentServer = or_string (getHeader (request context) ''Host'') []
     in case NewUriFromCopySource platform copySource context of
        Inl e \<Rightarrow> (Inl e, n)
      | Inr url \<Rightarrow>
          if currentServer \<noteq> host url
          then (Inl (CannotVerifyCopySource (contextId context) 404
                       ''The specified resource does not exist''), n)
          else (case axios_get platform (metadataUrl platform copySource) Map.empty None n of
                  (Inl err, n') \<Rightarrow> (Inl (TransportError err), n')
                | (Inr validationResponse, n') \<Rightarrow>
                    if status validationResponse = 200 then (Inr (), n')
                    else if status validationResponse = 404
                    then (Inl (CannotVerifyCopySource (contextId context)
                                 (status validationResponse)
                                 ''The specified resource does not exist''), n')
                    else (case errorMessage this platform validationResponse of
                            Inl thrown \<Rightarrow> (Inl thrown, n')
                          | Inr message \<Rightarrow>
                              (Inl (CannotVerifyCopySource (contextId context)
                                      (status validationResponse) message), n'))))"

section \<open>A store and a platform that log their calls\<close>

text \<open>
  To run the handlers on concrete inputs: a store whose state is the list of the calls
  it has received, in order, which accepts every call and answers a listing of blobs
  and a read of the service properties from fixed data; a generator of etags that
  counts and one that repeats; a parser that resolves to \<^verbatim>\<open>null\<close> for the empty string, to
  a given object for any other string, and rejects what is not a string; a network
  whose state is the list of the URLs requested.
\<close>

datatype StoreCall =
    CreateContainer ContainerModel
  | SetContainerMetadata string string date string "(string \<times> string) list option"
  | SetContainerACL string string ContainerACL
  | CheckContainerExist string string
  | ListBlobs string string "string option" "string option" "int option" "string option" bool
  | ListContainers string string int js_number
  | GetServiceProperties string
  | SetServiceProperties ServicePropertiesModel

definition loggingStore ::
  "BlobModel list \<Rightarrow> ServicePropertiesModel option \<Rightarrow> (StoreCall list, unit) MetadataStore" where
  "loggingStore blobs stored =
     \<lparr>createContainer = (\<lambda>m ctx log. Inr (log @ [CreateContainer m])),
      setContainerMetadata =
        (\<lambda>a c d e md ctx log. Inr (log @ [SetContainerMetadata a c d e md])),
      setContainerACL = (\<lambda>a c acl ctx log. Inr (log @ [SetContainerACL a c acl])),
      checkContainerExist = (\<lambda>a c ctx log. Inr (log @ [CheckContainerExist a c])),
      listBlobs =
        (\<lambda>a c b p mr mk inc log. Inr ((blobs, None), log @ [ListBlobs a c b p mr mk inc])),
      listContainers =
        (\<lambda>a p mr mk log. Inr (([], None), log @ [ListContainers a p mr mk])),
      getServiceProperties = (\<lambda>a log. Inr (stored, log @ [GetServiceProperties a])),
      setServiceProperties = (\<lambda>p log. Inr (log @ [SetServiceProperties p]))\<rparr>"

definition countingEtag :: "nat \<Rightarrow> string \<times> nat" where
  "countingEtag k = (''0x'' @ replicate (Suc k) CHR ''1'', Suc k)"

definition testParseXML :: "ParsedXML \<Rightarrow> payload \<Rightarrow> string + ParsedXML option" where
  "testParseXML parsed p =
     (case p of
        StringData str \<Rightarrow> if str = [] then Inr None else Inr (Some parsed)
      | StreamData str \<Rightarrow> Inl ''Non-whitespace before first tag.''
      | ObjectData \<Rightarrow> Inl ''Non-whitespace before first tag.'')"

definition testHandler ::
  "BlobModel list \<Rightarrow> ServicePropertiesModel option \<Rightarrow> ParsedXML
    \<Rightarrow> (StoreCall list, unit, nat) Handler" where
  "testHandler blobs stored parsed =
     \<lparr>metadataStore = loggingStore blobs stored,
      newEtag = countingEtag,
      BLOB_API_VERSION = ''2019-02-02'',
      parseXML = testParseXML parsed\<rparr>"



definition testContext :: "string option \<Rightarrow> Context" where
  "testContext hostHeader =
     \<lparr>account = ''devstoreaccount1'',
      container = ''photos'',
      startTime = 1000,
      contextID = ''req-1'',
      contextId = ''req-1'',
      request =
        \<lparr>getHeader = (\<lambda>h. if h = ''Host'' then hostHeader else None),
         getBody = None,
         getEndpoint = ''http://127.0.0.1:10000''\<rparr>\<rparr>"

text \<open>
  The platform answers every request with the given response and logs its URL;
  \<open>new_URL\<close> accepts the strings that start with \<^verbatim>\<open>http://\<close> and takes the host up to the
  next slash.
\<close>

definition testPlatform :: "AxiosResponse \<Rightarrow> (string list) Platform" where
  "testPlatform response =
     \<lparr>new_URL =
        (\<lambda>u. if take 7 u = ''http://''
              then Some \<lparr>host = takeWhile (\<lambda>c. c \<noteq> CHR ''/'') (drop 7 u)\<rparr>
              else None),
      metadataUrl = (\<lambda>u. u @ ''?comp=metadata''),
      CONTENT_TYPE = ''content-type'',
      RANGE = ''range'',
      axios_get = (\<lambda>u hs rt log. (Inr response, log @ [u]))\<rparr>"

definition testBlobs :: "BlobModel list" where
  "testBlobs =
     [\<lparr>name = ''photos/a.jpg'', snapshot = [], deleted = Some False\<rparr>,
      \<lparr>name = ''photos/b.jpg'', snapshot = [], deleted = Some True\<rparr>,
      \<lparr>name = ''readme.txt'', snapshot = [], deleted = Some False\<rparr>,
      \<lparr>name = ''notes.txt'', snapshot = [], deleted = None\<rparr>]"

definition noContainerOptions :: ContainerOptionalParams where
  "noContainerOptions =
     \<lparr>opt_metadata = None, opt_access = None, opt_containerAcl = None,
      opt_leaseAccessConditions = None\<rparr>"

definition noListOptions :: "'i ListOptionalParams" where
  "noListOptions =
     \<lparr>opt_prefix = None, opt_marker = None, opt_maxresults = None, opt_include = None\<rparr>"


definition testResponse :: "nat \<Rightarrow> string option \<Rightarrow> AxiosResponse" where
  "testResponse st ctype =
     \<lparr>status = st,
      headers = (\<lambda>h. if h = ''content-type'' then ctype else None),
      data = StringData ''<Error><Message>...</Message></Error>''\<rparr>"

definition emptyResponse :: "nat \<Rightarrow> string option \<Rightarrow> AxiosResponse" where
  "emptyResponse st ctype =
     \<lparr>status = st,
      headers = (\<lambda>h. if h = ''content-type'' then ctype else None),
      data = StringData []\<rparr>"

definition testParsed :: ParsedXML where
  "testParsed =
     [''Code'' \<mapsto> Text ''AuthenticationFailed'',
      ''Message'' \<mapsto> Text (''Server failed'' @ [CHR 0x0A, CHR 0x0A] @ ''to authenticate.'')]"



definition testRule :: CorsRule where
  "testRule =
     \<lparr>allowedOrigins = ''*'', allowedMethods = ''GET'', allowedHeaders = ''*'',
      exposedHeaders = ''*'', maxAgeInSeconds = 60\<rparr>"


definition testStored :: ServicePropertiesModel where
  "testStored =
     \<lparr>cors = Some [testRule], defaultServiceVersion = None, hourMetrics = None,
      logging = None, minuteMetrics = None, staticWebsite = Some \<lparr>sw_enabled = True\<rparr>,
      accountName = ''devstoreaccount1''\<rparr>"

definition testBlobs2 :: "BlobModel list" where
  "testBlobs2 =
     [\<lparr>name = ''docs//a.txt'', snapshot = [], deleted = None\<rparr>,
      \<lparr>name = ''docs//b.txt'', snapshot = [], deleted = None\<rparr>,
      \<lparr>name = ''readme.txt'', snapshot = [], deleted = None\<rparr>]"

section \<open>The loops of the two blob listings\<close>

lemma flat_loop_map:
  "flat_loop blobs items =
     items @ map (\<lambda>b. b\<lparr>deleted := (if deleted b = Some True then Some True else None)\<rparr>) blobs"
  by (induction blobs arbitrary: items) auto

lemma hierarchy_loop_items:
  "fst (hierarchy_loop d pl blobs (items, ps)) =
     items @ map (\<lambda>b. b\<lparr>deleted := (if deleted b = Some True then Some True else None)\<rparr>)
               (filter (\<lambda>b. indexOf (name b) d pl < 0) blobs)"
  by (induction blobs arbitrary: items ps) (auto simp: Let_def)

lemma hierarchy_loop_prefixes:
  "snd (hierarchy_loop d pl blobs (items, ps)) =
     foldl Set_add ps
       (map (\<lambda>b. substr0 (name b) (indexOf (name b) d pl + 1))
          (filter (\<lambda>b. \<not> indexOf (name b) d pl < 0) blobs))"
  by (induction blobs arbitrary: items ps) (auto simp: Let_def)

lemma foldl_Set_add_set: "set (foldl Set_add ps vs) = set ps \<union> set vs"
  by (induction vs arbitrary: ps) (auto simp: Set_add_def)

lemma foldl_Set_add_distinct: "distinct ps \<Longrightarrow> distinct (foldl Set_add ps vs)"
  by (induction vs arbitrary: ps) (auto simp: Set_add_def)

section \<open>Container create\<close>

text \<open>
  C10. Whenever \<^verbatim>\<open>create\<close> succeeds, the store has accepted a container whose
  properties are: the etag that \<^verbatim>\<open>newEtag\<close> has just produced, the start time of the
  request as \<^verbatim>\<open>lastModified\<close>, lease status \<^verbatim>\<open>Unlocked\<close>, lease state \<^verbatim>\<open>Available\<close>,
  \<^verbatim>\<open>hasImmutabilityPolicy\<close> and \<^verbatim>\<open>hasLegalHold\<close> both false; and the response has status
  code 201, that same etag and that same time.
\<close>

theorem create_initial_container:
  assumes "create this options context g s = Inr (res, g', s')"
  shows "createContainer (metadataStore this)
           \<lparr>c_accountName = account context,
            c_metadata = opt_metadata options,
            c_name = container context,
            c_properties =
              \<lparr>etag = fst (newEtag this g),
               lastModified = startTime context,
               leaseStatus = Some Unlocked,
               leaseState = Some Available,
               publicAccess = opt_access options,
               hasImmutabilityPolicy = Some False,
               hasLegalHold = Some False\<rparr>\<rparr>
           context s = Inr s'
         \<and> statusCode res = 201
         \<and> eTag res = fst (newEtag this g)
         \<and> res_lastModified res = startTime context"
  using assms
  by (auto simp: create_def Let_def split: prod.splits sum.splits)

theorem create_initial_container_witness:
  "create (testHandler [] None Map.empty) noContainerOptions (testContext None) 0 []
     = Inr (\<lparr>requestId = ''req-1'', statusCode = 201, version = Some ''2019-02-02'',
             date = None, eTag = ''0x1'', res_lastModified = 1000\<rparr>,
            1,
            [CreateContainer
               \<lparr>c_accountName = ''devstoreaccount1'',
                c_metadata = None,
                c_name = ''photos'',
                c_properties =
                  \<lparr>etag = ''0x1'',
                   lastModified = 1000,
                   leaseStatus = Some Unlocked,
                   leaseState = Some Available,
                   publicAccess = None,
                   hasImmutabilityPolicy = Some False,
                   hasLegalHold = Some False\<rparr>\<rparr>])
   \<and> createContainer (metadataStore (testHandler [] None Map.empty))
         \<lparr>c_accountName = ''devstoreaccount1'',
          c_metadata = None,
          c_name = ''photos'',
          c_properties =
            \<lparr>etag = ''0x1'',
             lastModified = 1000,
             leaseStatus = Some Unlocked,
             leaseState = Some Available,
             publicAccess = None,
             hasImmutabilityPolicy = Some False,
             hasLegalHold = Some False\<rparr>\<rparr>
         (testContext None) []
       = Inr [CreateContainer
               \<lparr>c_accountName = ''devstoreaccount1'',
                c_metadata = None,
                c_name = ''photos'',
                c_properties =
                  \<lparr>etag = ''0x1'',
                   lastModified = 1000,
                   leaseStatus = Some Unlocked,
                   leaseState = Some Available,
                   publicAccess = None,
                   hasImmutabilityPolicy = Some False,
                   hasLegalHold = Some False\<rparr>\<rparr>]"
  (is "?run \<and> ?stored")
proof -
  have run: ?run
    by (simp add: create_def testHandler_def loggingStore_def countingEtag_def
        testContext_def noContainerOptions_def)
  from create_initial_container [OF run] have ?stored
    by (simp add: testHandler_def countingEtag_def testContext_def noContainerOptions_def)
  with run show ?thesis by simp
qed

section \<open>Etag and lastModified of the mutating container operations\<close>




section \<open>The deleted flag of a listed blob\<close>

text \<open>
  C6. Whenever a flat or a hierarchical listing succeeds, each blob item of the page
  is a blob that the store returned (every one of them in the flat listing, those
  with no delimiter after the prefix in the hierarchical listing), in the store's
  order, with its \<^verbatim>\<open>deleted\<close> flag set to \<^verbatim>\<open>true\<close> when the stored flag is exactly
  \<^verbatim>\<open>true\<close> and to \<^verbatim>\<open>undefined\<close> otherwise; so no listed blob has \<^verbatim>\<open>deleted\<close> equal to
  \<^verbatim>\<open>false\<close>.
\<close>

theorem listed_deleted_normalized:
  "(listBlobFlatSegment this options context s = Inr (res, s') \<longrightarrow>
      (\<exists>blobs next s1.
          checkContainerExist (metadataStore this) (account context) (container context)
            context s = Inr s1 \<and>
          listBlobs (metadataStore this) (account context) (container context) None
            (opt_prefix options) (opt_maxresults options) (opt_marker options)
            (includeSnapshots_of options) s1 = Inr ((blobs, next), s') \<and>
          blobItems (segment res) =
            map (\<lambda>b. b\<lparr>deleted := (if deleted b = Some True then Some True else None)\<rparr>)
              blobs) \<and>
      (\<forall>b \<in> set (blobItems (segment res)). deleted b \<noteq> Some False))
   \<and> (listBlobHierarchySegment this delimiter0 options context s = Inr (res, s') \<longrightarrow>
      (\<exists>blobs next s1.
          checkContainerExist (metadataStore this) (account context) (container context)
            context s = Inr s1 \<and>
          listBlobs (metadataStore this) (account context) (container context) None
            (Some (or_string (opt_prefix options) [])) (opt_maxresults options)
            (opt_marker options) (includeSnapshots_of options) s1 = Inr ((blobs, next), s') \<and>
          blobItems (segment res) =
            map (\<lambda>b. b\<lparr>deleted := (if deleted b = Some True then Some True else None)\<rparr>)
              (filter
                 (\<lambda>b. indexOf (name b) (if delimiter0 = [] then ''/'' else delimiter0)
                         (length (or_string (opt_prefix options) [])) < 0)
                 blobs)) \<and>
      (\<forall>b \<in> set (blobItems (segment res)). deleted b \<noteq> Some False))"
proof (intro conjI impI)
  assume flat: "listBlobFlatSegment this options context s = Inr (res, s')"
  then show items: "\<exists>blobs next s1.
          checkContainerExist (metadataStore this) (account context) (container context)
            context s = Inr s1 \<and>
          listBlobs (metadataStore this) (account context) (container context) None
            (opt_prefix options) (opt_maxresults options) (opt_marker options)
            (includeSnapshots_of options) s1 = Inr ((blobs, next), s') \<and>
          blobItems (segment res) =
            map (\<lambda>b. b\<lparr>deleted := (if deleted b = Some True then Some True else None)\<rparr>)
              blobs"
    by (auto simp: listBlobFlatSegment_def Let_def flat_loop_map
        split: prod.splits sum.splits)
  then show "\<forall>b \<in> set (blobItems (segment res)). deleted b \<noteq> Some False"
    by (auto split: if_splits)
next
  assume hier: "listBlobHierarchySegment this delimiter0 options context s = Inr (res, s')"
  then obtain s1 blobs "next" where
    chk: "checkContainerExist (metadataStore this) (account context) (container context)
            context s = Inr s1"
    and lst: "listBlobs (metadataStore this) (account context) (container context) None
            (Some (or_string (opt_prefix options) [])) (opt_maxresults options)
            (opt_marker options) (includeSnapshots_of options) s1 = Inr ((blobs, next), s')"
    and seg: "blobItems (segment res) =
            fst (hierarchy_loop (if delimiter0 = [] then ''/'' else delimiter0)
                   (length (or_string (opt_prefix options) [])) blobs ([], []))"
    by (auto simp: listBlobHierarchySegment_def Let_def split: prod.splits sum.splits)
  from seg have items: "blobItems (segment res) =
            map (\<lambda>b. b\<lparr>deleted := (if deleted b = Some True then Some True else None)\<rparr>)
              (filter
                 (\<lambda>b. indexOf (name b) (if delimiter0 = [] then ''/'' else delimiter0)
                         (length (or_string (opt_prefix options) [])) < 0)
                 blobs)"
    by (simp only: hierarchy_loop_items append_Nil)
  from chk lst items show "\<exists>blobs next s1.
          checkContainerExist (metadataStore this) (account context) (container context)
            context s = Inr s1 \<and>
          listBlobs (metadataStore this) (account context) (container context) None
            (Some (or_string (opt_prefix options) [])) (opt_maxresults options)
            (opt_marker options) (includeSnapshots_of options) s1 = Inr ((blobs, next), s') \<and>
          blobItems (segment res) =
            map (\<lambda>b. b\<lparr>deleted := (if deleted b = Some True then Some True else None)\<rparr>)
              (filter
                 (\<lambda>b. indexOf (name b) (if delimiter0 = [] then ''/'' else delimiter0)
                         (length (or_string (opt_prefix options) [])) < 0)
                 blobs)"
    by blast
  from items show "\<forall>b \<in> set (blobItems (segment res)). deleted b \<noteq> Some False"
    by (auto split: if_splits)
qed

theorem listed_deleted_normalized_witness:
  "listBlobFlatSegment (testHandler testBlobs None Map.empty) noListOptions (testContext None) []
     = Inr (\<lparr>requestId = ''req-1'', statusCode = 200, version = Some ''2019-02-02'',
             date = Some 1000,
             serviceEndpoint = ''http://127.0.0.1:10000/devstoreaccount1'',
             prefix = [], maxResults = 5000, nextMarker = [],
             contentType = ''application/xml'', containerName = ''photos'',
             marker = [], delimiter = [],
             segment =
               \<lparr>blobItems =
                  [\<lparr>name = ''photos/a.jpg'', snapshot = [], deleted = None\<rparr>,
                   \<lparr>name = ''photos/b.jpg'', snapshot = [], deleted = Some True\<rparr>,
                   \<lparr>name = ''readme.txt'', snapshot = [], deleted = None\<rparr>,
                   \<lparr>name = ''notes.txt'', snapshot = [], deleted = None\<rparr>],
                blobPrefixes = None\<rparr>\<rparr>,
            [CheckContainerExist ''devstoreaccount1'' ''photos'',
             ListBlobs ''devstoreaccount1'' ''photos'' None None None None False])
   \<and> listBlobHierarchySegment (testHandler testBlobs None Map.empty) [] noListOptions
       (testContext None) []
     = Inr (\<lparr>requestId = ''req-1'', statusCode = 200, version = Some ''2019-02-02'',
             date = Some 1000,
             serviceEndpoint = ''http://127.0.0.1:10000/devstoreaccount1'',
             prefix = [], maxResults = 5000, nextMarker = [],
             contentType = ''application/xml'', containerName = ''photos'',
             marker = [], delimiter = ''/'',
             segment =
               \<lparr>blobItems =
                  [\<lparr>name = ''readme.txt'', snapshot = [], deleted = None\<rparr>,
                   \<lparr>name = ''notes.txt'', snapshot = [], deleted = None\<rparr>],
                blobPrefixes = Some [BlobPrefix ''photos/'']\<rparr>\<rparr>,
            [CheckContainerExist ''devstoreaccount1'' ''photos'',
             ListBlobs ''devstoreaccount1'' ''photos'' None (Some []) None None False])
   \<and> Some False \<notin> deleted ` set (blobItems (segment (fst (projr
         (listBlobFlatSegment (testHandler testBlobs None Map.empty) noListOptions
            (testContext None) [])))))
   \<and> Some False \<notin> deleted ` set (blobItems (segment (fst (projr
         (listBlobHierarchySegment (testHandler testBlobs None Map.empty) [] noListOptions
            (testContext None) [])))))"
  (is "?flat \<and> ?hier \<and> ?nf \<and> ?nh")
proof -
  have flat: ?flat
    by (simp add: listBlobFlatSegment_def Let_def testHandler_def loggingStore_def
        testContext_def noListOptions_def testBlobs_def includeSnapshots_of_def or_string_def or_number_def
        LIST_BLOBS_MAX_RESULTS_DEFAULT_def)
  have hier: ?hier
    by (simp add: listBlobHierarchySegment_def Let_def testHandler_def loggingStore_def
        testContext_def noListOptions_def testBlobs_def includeSnapshots_of_def
        or_string_def or_number_def LIST_BLOBS_MAX_RESULTS_DEFAULT_def indexOf_def
        Set_add_def substr0_def)
  note gen = listed_deleted_normalized
  from gen [THEN conjunct1, rule_format, OF flat] have nf: ?nf
    unfolding flat by auto
  from gen [THEN conjunct2, rule_format, OF hier] have nh: ?nh
    unfolding hier by auto
  from flat hier nf nh show ?thesis by blast
qed

section \<open>Defaults of the listings\<close>








section \<open>Validation of a copy source\<close>

text \<open>
  C3. When the copy source parses as a URL whose host differs from the \<^verbatim>\<open>Host\<close> header
  of the request (the empty string when there is none), \<^verbatim>\<open>validateCopySource\<close> throws
  \<^verbatim>\<open>CannotVerifyCopySource\<close> with status 404 and the message "The specified resource does
  not exist", and the state of the network is the one before the call, whatever
  \<^verbatim>\<open>axios.get\<close> would do: no request is made. When the copy source does not parse as a
  URL, it throws \<^verbatim>\<open>InvalidHeaderValue\<close> with the header name \<^verbatim>\<open>x-ms-copy-source\<close> and the
  copy source as the header value, again without a request.
\<close>

theorem validateCopySource_other_host:
  "(new_URL platform copySource = Some url \<and>
    (case getHeader (request context) ''Host'' of None \<Rightarrow> [] | Some h \<Rightarrow> h) \<noteq> host url \<longrightarrow>
      validateCopySource this platform copySource sourceAccount context n =
        (Inl (CannotVerifyCopySource (contextId context) 404
                ''The specified resource does not exist''), n))
   \<and> (new_URL platform copySource = None \<longrightarrow>
      validateCopySource this platform copySource sourceAccount context n =
        (Inl (InvalidHeaderValue (contextId context) ''x-ms-copy-source'' copySource), n))"
  by (auto simp: validateCopySource_def NewUriFromCopySource_def or_string_def Let_def
      split: option.splits)

theorem validateCopySource_other_host_witness:
  "new_URL (testPlatform (testResponse 200 None)) ''http://10.0.0.7:10000/other/photos/a.jpg''
     = Some \<lparr>host = ''10.0.0.7:10000''\<rparr>
   \<and> getHeader (request (testContext (Some ''127.0.0.1:10000''))) ''Host''
     = Some ''127.0.0.1:10000''
   \<and> validateCopySource (testHandler [] None testParsed) (testPlatform (testResponse 200 None))
       ''http://10.0.0.7:10000/other/photos/a.jpg'' ''other''
       (testContext (Some ''127.0.0.1:10000'')) []
     = (Inl (CannotVerifyCopySource ''req-1'' 404 ''The specified resource does not exist''),
        [])
   \<and> new_URL (testPlatform (testResponse 200 None)) ''photos/a.jpg'' = None
   \<and> validateCopySource (testHandler [] None testParsed) (testPlatform (testResponse 200 None))
       ''photos/a.jpg'' ''other'' (testContext (Some ''127.0.0.1:10000'')) []
     = (Inl (InvalidHeaderValue ''req-1'' ''x-ms-copy-source'' ''photos/a.jpg''), [])"
  (is "?url \<and> ?hdr \<and> ?other \<and> ?bad \<and> ?invalid")
proof -
  have url: ?url by (simp add: testPlatform_def)
  have hdr: ?hdr by (simp add: testContext_def)
  have bad: ?bad by (simp add: testPlatform_def)
  note gen = validateCopySource_other_host
    [of "testPlatform (testResponse 200 None)" _ _ "testContext (Some ''127.0.0.1:10000'')"
      "testHandler [] None testParsed" "''other''" "[]"]
  from gen [THEN conjunct1, rule_format,
      of "''http://10.0.0.7:10000/other/photos/a.jpg''" "\<lparr>host = ''10.0.0.7:10000''\<rparr>"]
    url hdr
  have other: ?other by (simp add: testContext_def)
  from gen [THEN conjunct2, rule_format, OF bad]
  have invalid: ?invalid by (simp add: testContext_def)
  from url hdr other bad invalid show ?thesis by blast
qed

text \<open>
  What \<^verbatim>\<open>validateCopySource\<close> does once the host check has passed and the request of the
  probe has resolved to a response, for every status: 200 succeeds; 404 throws
  \<^verbatim>\<open>CannotVerifyCopySource\<close> with status 404 and the message "The specified resource does
  not exist"; with any other status and a content type other than \<^verbatim>\<open>application/xml\<close> it
  throws \<^verbatim>\<open>CannotVerifyCopySource\<close> with that status and the fixed message; with the
  content type \<^verbatim>\<open>application/xml\<close> it throws \<^verbatim>\<open>CannotVerifyCopySource\<close> with that status when
  \<^verbatim>\<open>parseXML\<close> resolves to an object (the message is the \<^verbatim>\<open>Message\<close> of the object without
  its line feeds, the fixed message when there is none), and otherwise what the
  parser or the language throws.
\<close>

lemma validateCopySource_by_status:
  assumes "new_URL platform copySource = Some url"
    and "(case getHeader (request context) ''Host'' of None \<Rightarrow> [] | Some h \<Rightarrow> h) = host url"
    and "axios_get platform (metadataUrl platform copySource) Map.empty None n = (Inr r, n')"
  shows "validateCopySource this platform copySource sourceAccount context n =
    (if status r = 200 then Inr ()
     else if status r = 404
     then Inl (CannotVerifyCopySource (contextId context) 404
                 ''The specified resource does not exist'')
     else if headers r (CONTENT_TYPE platform) = Some ''application/xml''
     then (case parseXML this (data r) of
             Inl rejected \<Rightarrow> Inl (Error rejected)
           | Inr None \<Rightarrow> Inl TypeError
           | Inr (Some authenticationError) \<Rightarrow>
               (case authenticationError ''Message'' of
                  None \<Rightarrow>
                    Inl (CannotVerifyCopySource (contextId context) (status r)
                           ''Could not verify the copy source within the specified time.'')
                | Some (Text m) \<Rightarrow>
                    Inl (CannotVerifyCopySource (contextId context) (status r)
                           (filter (\<lambda>c. c \<noteq> CHR 0x0A) m))
                | Some NotText \<Rightarrow> Inl TypeError))
     else Inl (CannotVerifyCopySource (contextId context) (status r)
                 ''Could not verify the copy source within the specified time.''),
     n')"
  using assms
  by (auto simp: validateCopySource_def NewUriFromCopySource_def or_string_def
      errorMessage_def Let_def split: option.splits sum.splits xml_value.splits)

lemma validateCopySource_runs:
  "validateCopySource (testHandler [] None testParsed)
       (testPlatform (testResponse 403 (Some ''application/xml'')))
       ''http://127.0.0.1:10000/other/photos/a.jpg'' ''other''
       (testContext (Some ''127.0.0.1:10000'')) []
     = (Inl (CannotVerifyCopySource ''req-1'' 403 ''Server failedto authenticate.''),
        [''http://127.0.0.1:10000/other/photos/a.jpg?comp=metadata''])
   \<and> validateCopySource (testHandler [] None testParsed)
       (testPlatform (testResponse 500 (Some ''text/plain'')))
       ''http://127.0.0.1:10000/other/photos/a.jpg'' ''other''
       (testContext (Some ''127.0.0.1:10000'')) []
     = (Inl (CannotVerifyCopySource ''req-1'' 500
               ''Could not verify the copy source within the specified time.''),
        [''http://127.0.0.1:10000/other/photos/a.jpg?comp=metadata''])
   \<and> validateCopySource (testHandler [] None testParsed)
       (testPlatform (testResponse 404 (Some ''application/xml'')))
       ''http://127.0.0.1:10000/other/photos/a.jpg'' ''other''
       (testContext (Some ''127.0.0.1:10000'')) []
     = (Inl (CannotVerifyCopySource ''req-1'' 404 ''The specified resource does not exist''),
        [''http://127.0.0.1:10000/other/photos/a.jpg?comp=metadata''])
   \<and> validateCopySource (testHandler [] None testParsed)
       (testPlatform (testResponse 200 (Some ''application/xml'')))
       ''http://127.0.0.1:10000/other/photos/a.jpg'' ''other''
       (testContext (Some ''127.0.0.1:10000'')) []
     = (Inr (), [''http://127.0.0.1:10000/other/photos/a.jpg?comp=metadata''])"
  by (simp add: validateCopySource_def NewUriFromCopySource_def or_string_def
      errorMessage_def Let_def testHandler_def testParseXML_def testPlatform_def
      testResponse_def testContext_def testParsed_def)

text \<open>
  C2, with a response whose body parses to \<^verbatim>\<open>null\<close>. The host check passes and the probe
  answers with status 403, the content type \<^verbatim>\<open>application/xml\<close> and an empty body, for
  which \<^verbatim>\<open>parseXML\<close> resolves to \<^verbatim>\<open>null\<close>. \<^verbatim>\<open>validateCopySource\<close> then reads \<^verbatim>\<open>Message\<close> from
  \<^verbatim>\<open>null\<close>: what it throws is a \<^verbatim>\<open>TypeError\<close>, not \<^verbatim>\<open>CannotVerifyCopySource\<close> with the status
  403.
\<close>

theorem validateCopySource_null_body:
  "validateCopySource (testHandler [] None testParsed)
       (testPlatform (emptyResponse 403 (Some ''application/xml'')))
       ''http://127.0.0.1:10000/other/photos/a.jpg'' ''other''
       (testContext (Some ''127.0.0.1:10000'')) []
     = (Inl TypeError, [''http://127.0.0.1:10000/other/photos/a.jpg?comp=metadata''])"
  by (simp add: validateCopySource_def NewUriFromCopySource_def or_string_def
      errorMessage_def Let_def testHandler_def testParseXML_def testPlatform_def
      emptyResponse_def testContext_def)

text \<open>
  The fetch of the content decides in the same way, with every status from 200 to 299
  a success; its response is requested as a stream.
\<close>

lemma getCopySourceContent_by_status:
  assumes "axios_get platform copySource
             (copyHeader context Map.empty ''x-ms-source-range'' (RANGE platform))
             (Some ''stream'') n
           = (Inr r, n')"
  shows "getCopySourceContent this platform copySource sourceAccount context n =
    (if 200 \<le> status r \<and> status r < 300 then Inr (data r)
     else if status r = 404
     then Inl (CannotVerifyCopySource (contextId context) 404
                 ''The specified resource does not exist'')
     else (case errorMessage this platform r of
             Inl thrown \<Rightarrow> Inl thrown
           | Inr message \<Rightarrow>
               Inl (CannotVerifyCopySource (contextId context) (status r) message)),
     n')"
  using assms
  by (auto simp: getCopySourceContent_def Let_def split: sum.splits)

section \<open>Service properties\<close>

text \<open>
  \<^verbatim>\<open>setProperties\<close> throws before it reaches the store when \<^verbatim>\<open>parseXML\<close> rejects and when
  it resolves to \<^verbatim>\<open>null\<close> or \<^verbatim>\<open>undefined\<close>.
\<close>

lemma setProperties_throws:
  "(parseXML this (StringData (case getBody (request context) of None \<Rightarrow> [] | Some b \<Rightarrow> b))
      = Inl rejected \<longrightarrow>
    setProperties this storageServiceProperties options context s = Inl (Error rejected))
   \<and> (parseXML this (StringData (case getBody (request context) of None \<Rightarrow> [] | Some b \<Rightarrow> b))
      = Inr None \<longrightarrow>
    setProperties this storageServiceProperties options context s = Inl TypeError)"
proof -
  have body: "or_string (getBody (request context)) [] =
      (case getBody (request context) of None \<Rightarrow> [] | Some b \<Rightarrow> b)"
    by (simp add: or_string_def split: option.splits)
  show ?thesis
    unfolding setProperties_def Let_def body by simp
qed



text \<open>
  C5, at a fresh account. The store has no record, and the \<^verbatim>\<open>logging\<close> that
  \<^verbatim>\<open>getProperties\<close> returns is the default one: its \<^verbatim>\<open>deleteProperty\<close>, \<^verbatim>\<open>read\<close> and \<^verbatim>\<open>write\<close>
  are all \<^verbatim>\<open>true\<close>, so logging is switched on for the three kinds of request; only its
  retention policy is disabled.
\<close>

theorem getProperties_default_logging_on:
  "logging (properties (fst (projr
      (getProperties (testHandler [] None Map.empty) () (testContext None) []))))
    = Some \<lparr>l_deleteProperty = True, l_read = True,
            l_retentionPolicy = \<lparr>rp_enabled = False\<rparr>, l_version = ''1.0'',
            l_write = True\<rparr>"
  by (simp add: getProperties_def Let_def testHandler_def loggingStore_def testContext_def
      defaultServiceProperties_def withAccountName_def)

text \<open>
  C5, as the code has it. Whenever \<^verbatim>\<open>getProperties\<close> succeeds, the response has status
  code 200 and none of the six properties is unset: each is the stored value when the
  store has a record with that property, and otherwise the default: \<^verbatim>\<open>cors\<close> the empty
  list; \<^verbatim>\<open>hourMetrics\<close> and \<^verbatim>\<open>minuteMetrics\<close> disabled, with the retention policy disabled
  and version "1.0"; \<^verbatim>\<open>logging\<close> with \<^verbatim>\<open>deleteProperty\<close>, \<^verbatim>\<open>read\<close> and \<^verbatim>\<open>write\<close> true, the
  retention policy disabled and version "1.0"; \<^verbatim>\<open>defaultServiceVersion\<close> the API version;
  \<^verbatim>\<open>staticWebsite\<close> disabled.
\<close>

theorem getProperties_fills_defaults:
  assumes "getProperties this options context s = Inr (res, s')"
  shows "\<exists>stored.
      getServiceProperties (metadataStore this) (account context) s = Inr (stored, s') \<and>
      statusCode res = 200 \<and>
      cors (properties res) =
        Some (case Option.bind stored cors of None \<Rightarrow> [] | Some v \<Rightarrow> v) \<and>
      hourMetrics (properties res) =
        Some (case Option.bind stored hourMetrics of
                None \<Rightarrow> \<lparr>m_enabled = False, m_retentionPolicy = \<lparr>rp_enabled = False\<rparr>,
                         m_version = ''1.0''\<rparr>
              | Some v \<Rightarrow> v) \<and>
      logging (properties res) =
        Some (case Option.bind stored logging of
                None \<Rightarrow> \<lparr>l_deleteProperty = True, l_read = True,
                         l_retentionPolicy = \<lparr>rp_enabled = False\<rparr>, l_version = ''1.0'',
                         l_write = True\<rparr>
              | Some v \<Rightarrow> v) \<and>
      minuteMetrics (properties res) =
        Some (case Option.bind stored minuteMetrics of
                None \<Rightarrow> \<lparr>m_enabled = False, m_retentionPolicy = \<lparr>rp_enabled = False\<rparr>,
                         m_version = ''1.0''\<rparr>
              | Some v \<Rightarrow> v) \<and>
      defaultServiceVersion (properties res) =
        Some (case Option.bind stored defaultServiceVersion of
                None \<Rightarrow> BLOB_API_VERSION this | Some v \<Rightarrow> v) \<and>
      staticWebsite (properties res) =
        Some (case Option.bind stored staticWebsite of
                None \<Rightarrow> \<lparr>sw_enabled = False\<rparr> | Some v \<Rightarrow> v) \<and>
      accountName (properties res) =
        (case stored of None \<Rightarrow> account context | Some p \<Rightarrow> accountName p)"
proof -
  from assms obtain stored where
    get: "getServiceProperties (metadataStore this) (account context) s = Inr (stored, s')"
    by (auto simp: getProperties_def Let_def split: sum.splits prod.splits)
  show ?thesis
  proof (cases stored)
    case None
    with assms get show ?thesis
      by (auto simp: getProperties_def Let_def defaultServiceProperties_def
          withAccountName_def)
  next
    case (Some p)
    with assms get have res: "properties res =
        p\<lparr>cors := Some (case cors p of None \<Rightarrow> [] | Some v \<Rightarrow> v),
          hourMetrics := Some (case hourMetrics p of
                None \<Rightarrow> \<lparr>m_enabled = False, m_retentionPolicy = \<lparr>rp_enabled = False\<rparr>,
                         m_version = ''1.0''\<rparr>
              | Some v \<Rightarrow> v),
          logging := Some (case logging p of
                None \<Rightarrow> \<lparr>l_deleteProperty = True, l_read = True,
                         l_retentionPolicy = \<lparr>rp_enabled = False\<rparr>, l_version = ''1.0'',
                         l_write = True\<rparr>
              | Some v \<Rightarrow> v),
          minuteMetrics := Some (case minuteMetrics p of
                None \<Rightarrow> \<lparr>m_enabled = False, m_retentionPolicy = \<lparr>rp_enabled = False\<rparr>,
                         m_version = ''1.0''\<rparr>
              | Some v \<Rightarrow> v),
          defaultServiceVersion := Some (case defaultServiceVersion p of
                None \<Rightarrow> BLOB_API_VERSION this | Some v \<Rightarrow> v),
          staticWebsite := Some (case staticWebsite p of
                None \<Rightarrow> \<lparr>sw_enabled = False\<rparr> | Some v \<Rightarrow> v)\<rparr>"
      and st: "statusCode res = 200"
      by (auto simp: getProperties_def Let_def defaultServiceProperties_def
          split: option.splits)
    from get Some st show ?thesis
      by (simp add: res)
  qed
qed

theorem getProperties_fills_defaults_witness:
  "getProperties (testHandler [] (Some testStored) Map.empty) () (testContext None) []
     = Inr (\<lparr>requestId = ''req-1'', statusCode = 200, version = Some ''2019-02-02'',
             date = None,
             properties =
               \<lparr>cors = Some [testRule],
                defaultServiceVersion = Some ''2019-02-02'',
                hourMetrics =
                  Some \<lparr>m_enabled = False, m_retentionPolicy = \<lparr>rp_enabled = False\<rparr>,
                        m_version = ''1.0''\<rparr>,
                logging =
                  Some \<lparr>l_deleteProperty = True, l_read = True,
                        l_retentionPolicy = \<lparr>rp_enabled = False\<rparr>, l_version = ''1.0'',
                        l_write = True\<rparr>,
                minuteMetrics =
                  Some \<lparr>m_enabled = False, m_retentionPolicy = \<lparr>rp_enabled = False\<rparr>,
                        m_version = ''1.0''\<rparr>,
                staticWebsite = Some \<lparr>sw_enabled = True\<rparr>,
                accountName = ''devstoreaccount1''\<rparr>\<rparr>,
            [GetServiceProperties ''devstoreaccount1''])
   \<and> cors (properties (fst (projr
        (getProperties (testHandler [] (Some testStored) Map.empty) () (testContext None) []))))
       \<noteq> None
   \<and> logging (properties (fst (projr
        (getProperties (testHandler [] (Some testStored) Map.empty) () (testContext None) []))))
       \<noteq> None"
  (is "?run \<and> ?c \<and> ?l")
proof -
  have run: ?run
    by (simp add: getProperties_def Let_def testHandler_def loggingStore_def testContext_def
        defaultServiceProperties_def testStored_def)
  from getProperties_fills_defaults [OF run] have c: ?c and l: ?l
    unfolding run by auto
  from run c l show ?thesis by blast
qed

section \<open>The operations that are not implemented\<close>

text \<open>
  C9, at one call of each operation. What is thrown is a plain \<^verbatim>\<open>Error\<close>, the generic
  error of the language, with the message "Method not implemented."; it is neither of
  the errors that \<^verbatim>\<open>StorageErrorFactory\<close> builds, and the handlers have no error kind of
  their own for an operation that is not implemented.
\<close>

theorem not_implemented_is_plain_Error:
  "getUserDelegationKey (''2019-01-01'', ''2019-01-02'') () (testContext None)
     = (Inl (Error ''Method not implemented.'') :: unit error + unit)
   \<and> submitBatch ''--batch'' 7 ''multipart/mixed'' () (testContext None)
     = (Inl (Error ''Method not implemented.'') :: unit error + unit)"
  by (simp add: getUserDelegationKey_def submitBatch_def)

text \<open>
  C9, as the code has it. Every call of \<^verbatim>\<open>getUserDelegationKey\<close> and of \<^verbatim>\<open>submitBatch\<close>
  fails, whatever its arguments, with a plain \<^verbatim>\<open>Error\<close> whose message is "Method not
  implemented."; the store is not involved.
\<close>

theorem not_implemented_throws:
  "getUserDelegationKey keyInfo options context = Inl (Error ''Method not implemented.'')
   \<and> submitBatch body contentLength multipartContentType options' context' =
       Inl (Error ''Method not implemented.'')"
  by (simp add: getUserDelegationKey_def submitBatch_def)

section \<open>The hierarchical listing\<close>

lemma indexOf_from_single:
  "indexOf_from [c] s k =
     (if c \<in> set s then int (k + length (takeWhile (\<lambda>x. x \<noteq> c) s)) else - 1)"
  by (induction s arbitrary: k) auto

lemma indexOf_single:
  "indexOf s [c] k =
     (if c \<in> set (drop k s)
      then int (min k (length s) + length (takeWhile (\<lambda>x. x \<noteq> c) (drop k s)))
      else - 1)"
proof -
  have "drop (min k (length s)) s = drop k s"
    by (cases "k \<le> length s") (simp_all add: min_def)
  then show ?thesis
    by (simp add: indexOf_def Let_def indexOf_from_single)
qed

lemma split_at_first:
  "c \<in> set xs \<Longrightarrow> \<exists>rest. xs = takeWhile (\<lambda>x. x \<noteq> c) xs @ c # rest"
  by (induction xs) auto

text \<open>
  With a delimiter of one character, a name with a delimiter after the prefix is cut
  just past the first such delimiter.
\<close>

lemma substr0_single:
  assumes "c \<in> set (drop k s)"
  shows "substr0 s (indexOf s [c] k + 1) =
           take k s @ takeWhile (\<lambda>x. x \<noteq> c) (drop k s) @ [c]"
proof -
  from assms have k: "k < length s"
    by (cases "k < length s") auto
  let ?w = "takeWhile (\<lambda>x. x \<noteq> c) (drop k s)"
  from split_at_first [OF assms] obtain rest where split: "drop k s = ?w @ c # rest"
    by blast
  have "take k s @ drop k s = s" by simp
  with split have s: "s = take k s @ ?w @ c # rest" by simp
  have len: "length (take k s) = k" using k by simp
  have "take (k + length ?w + 1) (take k s @ ?w @ c # rest) = take k s @ ?w @ [c]"
    using len by simp
  with s have t: "take (k + length ?w + 1) s = take k s @ ?w @ [c]" by simp
  have "nat (indexOf s [c] k + 1) = k + length ?w + 1"
    using assms k by (simp add: indexOf_single min_def nat_add_distrib)
  with t show ?thesis
    by (simp add: substr0_def)
qed

text \<open>
  What a successful hierarchical listing returns, for any delimiter: the blob items
  are the blobs of the store's page with no delimiter at or after the prefix length,
  and the blob prefixes are, without repetition, the names of the other blobs of the
  page, each cut one character past the position where its first delimiter starts.
\<close>

lemma hierarchy_page:
  assumes "listBlobHierarchySegment this delimiter0 options context s = Inr (res, s')"
  shows "\<exists>blobs next s1 ps.
      checkContainerExist (metadataStore this) (account context) (container context)
        context s = Inr s1 \<and>
      listBlobs (metadataStore this) (account context) (container context) None
        (Some (or_string (opt_prefix options) [])) (opt_maxresults options)
        (opt_marker options) (includeSnapshots_of options) s1 = Inr ((blobs, next), s') \<and>
      delimiter res = (if delimiter0 = [] then ''/'' else delimiter0) \<and>
      blobItems (segment res) =
        map (\<lambda>b. b\<lparr>deleted := (if deleted b = Some True then Some True else None)\<rparr>)
          (filter (\<lambda>b. indexOf (name b) (delimiter res)
                          (length (or_string (opt_prefix options) [])) < 0) blobs) \<and>
      blobPrefixes (segment res) = Some (map BlobPrefix ps) \<and>
      distinct ps \<and>
      set ps =
        (\<lambda>b. substr0 (name b)
                (indexOf (name b) (delimiter res)
                   (length (or_string (opt_prefix options) [])) + 1)) `
        {b \<in> set blobs.
           \<not> indexOf (name b) (delimiter res)
               (length (or_string (opt_prefix options) [])) < 0}"
proof -
  let ?d = "if delimiter0 = [] then ''/'' else delimiter0"
  let ?pl = "length (or_string (opt_prefix options) [])"
  from assms obtain s1 blobs "next" where
    chk: "checkContainerExist (metadataStore this) (account context) (container context)
            context s = Inr s1"
    and lst: "listBlobs (metadataStore this) (account context) (container context) None
            (Some (or_string (opt_prefix options) [])) (opt_maxresults options)
            (opt_marker options) (includeSnapshots_of options) s1 = Inr ((blobs, next), s')"
    and del: "delimiter res = ?d"
    and items: "blobItems (segment res) = fst (hierarchy_loop ?d ?pl blobs ([], []))"
    and prefs: "blobPrefixes (segment res) =
                  Some (map BlobPrefix (snd (hierarchy_loop ?d ?pl blobs ([], []))))"
    by (auto simp: listBlobHierarchySegment_def Let_def split: prod.splits sum.splits)
  let ?ps = "snd (hierarchy_loop ?d ?pl blobs ([], []))"
  have "distinct ?ps"
    by (simp only: hierarchy_loop_prefixes) (simp add: foldl_Set_add_distinct)
  moreover have "set ?ps =
      (\<lambda>b. substr0 (name b) (indexOf (name b) ?d ?pl + 1)) `
        {b \<in> set blobs. \<not> indexOf (name b) ?d ?pl < 0}"
    by (simp only: hierarchy_loop_prefixes) (auto simp: foldl_Set_add_set)
  moreover have "fst (hierarchy_loop ?d ?pl blobs ([], [])) =
      map (\<lambda>b. b\<lparr>deleted := (if deleted b = Some True then Some True else None)\<rparr>)
        (filter (\<lambda>b. indexOf (name b) ?d ?pl < 0) blobs)"
    by (simp only: hierarchy_loop_items append_Nil)
  ultimately show ?thesis
    using chk lst del items prefs by (intro exI [of _ blobs] exI [of _ "next"]
        exI [of _ s1] exI [of _ ?ps]) simp
qed

text \<open>
  With a delimiter of one character, the default \<^verbatim>\<open>/\<close> included, the page is as the
  hierarchical listing is meant to be: a blob is an item when the delimiter does not
  occur after the prefix, and otherwise its name up to and including the first
  delimiter after the prefix is a blob prefix, listed once.
\<close>

lemma hierarchy_page_one_character:
  assumes run: "listBlobHierarchySegment this delimiter0 options context s = Inr (res, s')"
    and one: "(if delimiter0 = [] then ''/'' else delimiter0) = [c]"
  shows "\<exists>blobs next s1 ps.
      checkContainerExist (metadataStore this) (account context) (container context)
        context s = Inr s1 \<and>
      listBlobs (metadataStore this) (account context) (container context) None
        (Some (or_string (opt_prefix options) [])) (opt_maxresults options)
        (opt_marker options) (includeSnapshots_of options) s1 = Inr ((blobs, next), s') \<and>
      blobItems (segment res) =
        map (\<lambda>b. b\<lparr>deleted := (if deleted b = Some True then Some True else None)\<rparr>)
          (filter (\<lambda>b. c \<notin> set (drop (length (or_string (opt_prefix options) [])) (name b)))
             blobs) \<and>
      blobPrefixes (segment res) = Some (map BlobPrefix ps) \<and>
      distinct ps \<and>
      set ps =
        (\<lambda>b. take (length (or_string (opt_prefix options) [])) (name b) @
              takeWhile (\<lambda>x. x \<noteq> c)
                (drop (length (or_string (opt_prefix options) [])) (name b)) @ [c]) `
        {b \<in> set blobs. c \<in> set (drop (length (or_string (opt_prefix options) [])) (name b))}"
proof -
  let ?pl = "length (or_string (opt_prefix options) [])"
  from hierarchy_page [OF run] one obtain blobs "next" s1 ps where
    chk: "checkContainerExist (metadataStore this) (account context) (container context)
        context s = Inr s1"
    and lst: "listBlobs (metadataStore this) (account context) (container context) None
        (Some (or_string (opt_prefix options) [])) (opt_maxresults options)
        (opt_marker options) (includeSnapshots_of options) s1 = Inr ((blobs, next), s')"
    and items: "blobItems (segment res) =
        map (\<lambda>b. b\<lparr>deleted := (if deleted b = Some True then Some True else None)\<rparr>)
          (filter (\<lambda>b. indexOf (name b) [c] ?pl < 0) blobs)"
    and prefs: "blobPrefixes (segment res) = Some (map BlobPrefix ps)"
    and dist: "distinct ps"
    and ps: "set ps =
        (\<lambda>b. substr0 (name b) (indexOf (name b) [c] ?pl + 1)) `
        {b \<in> set blobs. \<not> indexOf (name b) [c] ?pl < 0}"
    by auto
  have neg: "indexOf nm [c] ?pl < 0 \<longleftrightarrow> c \<notin> set (drop ?pl nm)" for nm
    by (simp add: indexOf_single)
  have items': "blobItems (segment res) =
        map (\<lambda>b. b\<lparr>deleted := (if deleted b = Some True then Some True else None)\<rparr>)
          (filter (\<lambda>b. c \<notin> set (drop ?pl (name b))) blobs)"
    unfolding items neg ..
  have ps': "set ps =
        (\<lambda>b. take ?pl (name b) @ takeWhile (\<lambda>x. x \<noteq> c) (drop ?pl (name b)) @ [c]) `
        {b \<in> set blobs. c \<in> set (drop ?pl (name b))}"
    unfolding ps neg by (rule image_cong) (simp_all add: substr0_single)
  from chk lst items' prefs dist ps' show ?thesis
    by blast
qed

text \<open>
  C1, with a delimiter of two characters. The store's page holds \<^verbatim>\<open>docs//a.txt\<close>,
  \<^verbatim>\<open>docs//b.txt\<close> and \<^verbatim>\<open>readme.txt\<close>, and the delimiter is \<^verbatim>\<open>//\<close>. The delimiter starts at
  position 4 of the first two names and \<^verbatim>\<open>substr(0, 4 + 1)\<close> cuts them to \<^verbatim>\<open>docs/\<close>, in the
  middle of the delimiter: the one blob prefix of the page is \<^verbatim>\<open>docs/\<close>, not the name
  cut just past the delimiter, \<^verbatim>\<open>docs//\<close>.
\<close>

theorem hierarchy_two_character_delimiter:
  "listBlobHierarchySegment (testHandler testBlobs2 None Map.empty) ''//'' noListOptions
       (testContext None) []
     = Inr (\<lparr>requestId = ''req-1'', statusCode = 200, version = Some ''2019-02-02'',
             date = Some 1000,
             serviceEndpoint = ''http://127.0.0.1:10000/devstoreaccount1'',
             prefix = [], maxResults = 5000, nextMarker = [],
             contentType = ''application/xml'', containerName = ''photos'',
             marker = [], delimiter = ''//'',
             segment =
               \<lparr>blobItems = [\<lparr>name = ''readme.txt'', snapshot = [], deleted = None\<rparr>],
                blobPrefixes = Some [BlobPrefix ''docs/'']\<rparr>\<rparr>,
            [CheckContainerExist ''devstoreaccount1'' ''photos'',
             ListBlobs ''devstoreaccount1'' ''photos'' None (Some []) None None False])"
  by (simp add: listBlobHierarchySegment_def Let_def testHandler_def loggingStore_def
      testContext_def noListOptions_def testBlobs2_def includeSnapshots_of_def
      or_string_def or_number_def LIST_BLOBS_MAX_RESULTS_DEFAULT_def indexOf_def
      Set_add_def substr0_def)

end
